theory Spec2Isabelle
  imports Main "HOL-Library.Word"
begin

section \<open>Data model of \<^verbatim>\<open>examples/irq_latency/vmm.c\<close>\<close>

text \<open>
  The target is AArch64: \<^verbatim>\<open>uintptr_t\<close>, \<^verbatim>\<open>size_t\<close> and \<^verbatim>\<open>uint64_t\<close> are 64-bit words,
  \<^verbatim>\<open>microkit_channel\<close> and \<^verbatim>\<open>microkit_child\<close> are \<^verbatim>\<open>unsigned int\<close>, \<^verbatim>\<open>int\<close> is
  modelled by \<open>int\<close> (only the constant 33 ever flows through it).
\<close>

type_synonym uintptr_t = "64 word"
type_synonym size_t = "64 word"
type_synonym uint64_t = "64 word"
type_synonym microkit_channel = "32 word"
type_synonym microkit_child = "32 word"

text \<open>
  Modelled from the spec: the type \<^verbatim>\<open>microkit_msginfo\<close> and its constructor
  \<^verbatim>\<open>microkit_msginfo_new(label, count)\<close> are declared in \<^verbatim>\<open>microkit.h\<close>, which is not
  part of the sources. A message info is represented by the label and the count it was
  built from; the ``empty/zero reply'' of the spec is the one built from 0 and 0.
\<close>

datatype microkit_msginfo = Msginfo (msg_label: "64 word") (msg_count: "16 word")

definition microkit_msginfo_new :: "64 word \<Rightarrow> 16 word \<Rightarrow> microkit_msginfo" where
  "microkit_msginfo_new l c = Msginfo l c"

definition GUEST_RAM_SIZE :: "64 word" where
  "GUEST_RAM_SIZE = 0x10000000"

definition GUEST_DTB_VADDR :: uintptr_t where
  "GUEST_DTB_VADDR = 0x4f000000"

definition GUEST_INIT_RAM_DISK_VADDR :: uintptr_t where
  "GUEST_INIT_RAM_DISK_VADDR = 0x4d000000"

definition SERIAL_IRQ_CH :: microkit_channel where
  "SERIAL_IRQ_CH = 1"

definition SERIAL_IRQ :: int where
  "SERIAL_IRQ = 33"

subsection \<open>Calls to the outside\<close>

text \<open>
  Everything the three entry points do, apart from updating the global \<^verbatim>\<open>count\<close> and
  the reply location, is a call to a collaborator that lives outside the file: the
  logging macros, \<^verbatim>\<open>printf\<close>, the image loader, the virtual interrupt controller, the
  microkit and the fault dispatcher. Each function of the model returns the list of the
  calls it makes itself, in program order, with the actual arguments. The value such a
  call returns is an input of the model.
\<close>

datatype log_arg = Str string | Num int

datatype callback = Serial_ack

datatype event =
    LOG_VMM string "log_arg list"
  | LOG_VMM_ERR string "log_arg list"
  | Printf string "log_arg list"
  | Linux_setup_images uintptr_t uintptr_t size_t uintptr_t uintptr_t size_t
      uintptr_t uintptr_t size_t
  | Virq_controller_init
  | Virq_register nat int callback
  | Microkit_irq_ack microkit_channel
  | Guest_start uintptr_t uintptr_t uintptr_t
  | Virq_inject int
  | Fault_handle microkit_child microkit_msginfo

subsection \<open>\<^verbatim>\<open>serial_ack\<close>\<close>


subsection \<open>\<^verbatim>\<open>init\<close>\<close>

text \<open>
  The linker symbols, the variable \<^verbatim>\<open>guest_ram_vaddr\<close> set by the microkit, the name
  of the protection domain and the macro \<^verbatim>\<open>GUEST_BOOT_VCPU_ID\<close> of
  \<^verbatim>\<open>libvmm/guest.h\<close> are parameters of the boot.
\<close>

record boot_inputs =
  microkit_name :: string
  guest_ram_vaddr :: uintptr_t
  guest_kernel_image :: uintptr_t
  guest_kernel_image_end :: uintptr_t
  guest_dtb_image :: uintptr_t
  guest_dtb_image_end :: uintptr_t
  guest_initrd_image :: uintptr_t
  guest_initrd_image_end :: uintptr_t
  GUEST_BOOT_VCPU_ID :: nat

text \<open>What the collaborators called by \<^verbatim>\<open>init\<close> return.\<close>

record boot_returns =
  linux_setup_images_ret :: uintptr_t
  virq_controller_init_ret :: bool
  virq_register_ret :: bool

definition init :: "boot_inputs \<Rightarrow> boot_returns \<Rightarrow> event list" where
  "init b r =
    [LOG_VMM ''starting \"%s\"\<newline>'' [Str (microkit_name b)]] @
    (let kernel_size = guest_kernel_image_end b - guest_kernel_image b;
         dtb_size = guest_dtb_image_end b - guest_dtb_image b;
         initrd_size = guest_initrd_image_end b - guest_initrd_image b
     in
       [LOG_VMM ''[DEBUG] Initialise guest images...\<newline>'' [],
        Linux_setup_images (guest_ram_vaddr b)
          (guest_kernel_image b) kernel_size
          (guest_dtb_image b) GUEST_DTB_VADDR dtb_size
          (guest_initrd_image b) GUEST_INIT_RAM_DISK_VADDR initrd_size] @
       (let kernel_pc = linux_setup_images_ret r in
        if kernel_pc = 0 then
          [LOG_VMM_ERR ''Failed to initialise guest images\<newline>'' []]
        else
          [LOG_VMM ''[DEBUG] Initialising the virtual GIC driver...\<newline>'' [],
           Virq_controller_init] @
          (let success = virq_controller_init_ret r in
           if \<not> success then
             [LOG_VMM_ERR ''Failed to initialise emulated interrupt controller\<newline>'' []]
           else
             [Virq_register (GUEST_BOOT_VCPU_ID b) SERIAL_IRQ Serial_ack] @
             (let success = virq_register_ret r in
              [LOG_VMM ''[DEBUG] Acking interrupt...(just in case there is already an interrupt available to handle)\<newline>'' [],
               Microkit_irq_ack SERIAL_IRQ_CH,
               LOG_VMM ''[DEBUG] Start Linux guest...\<newline>'' [],
               Guest_start kernel_pc GUEST_DTB_VADDR GUEST_INIT_RAM_DISK_VADDR]))))"

subsection \<open>\<^verbatim>\<open>notified\<close>\<close>

text \<open>The first argument is what \<^verbatim>\<open>virq_inject\<close> returns if it is called.\<close>

definition notified :: "bool \<Rightarrow> microkit_channel \<Rightarrow> event list" where
  "notified virq_inject_ret ch =
    (if ch = SERIAL_IRQ_CH then
       [LOG_VMM ''[DEBUG] Notification received from SERIAL_IRQ_CH=%u\<newline>'' [Num (uint SERIAL_IRQ_CH)],
        LOG_VMM ''[DEBUG] Injecting virq to SERIAL_IRQ=%u....\<newline>'' [Num SERIAL_IRQ],
        Virq_inject SERIAL_IRQ] @
       (let success = virq_inject_ret in
        if \<not> success then [LOG_VMM_ERR ''IRQ %d dropped\<newline>'' [Num SERIAL_IRQ]] else [])
     else
       [Printf ''Unexpected channel, ch: 0x%lx\<newline>'' [Num (uint ch)]])"

subsection \<open>\<^verbatim>\<open>fault\<close>\<close>

text \<open>
  The state that \<^verbatim>\<open>fault\<close> works on is the static variable \<^verbatim>\<open>count\<close> and the memory
  that holds message infos, a store from addresses to values: \<^verbatim>\<open>reply_msginfo\<close> is an
  address of it, and \<^verbatim>\<open>*reply_msginfo = v\<close> updates the store there. The runtime always
  passes the address of a valid location, so every address of the store is one. The
  first argument is what \<^verbatim>\<open>fault_handle\<close> returns.
\<close>

type_synonym msg_store = "uintptr_t \<Rightarrow> microkit_msginfo"

record fault_result =
  ret :: bool
  mem :: msg_store
  count :: uint64_t
  calls :: "event list"

definition fault ::
  "bool \<Rightarrow> microkit_child \<Rightarrow> microkit_msginfo \<Rightarrow> uintptr_t \<Rightarrow> msg_store \<Rightarrow> uint64_t
    \<Rightarrow> fault_result" where
  "fault fault_handle_ret child msginfo reply_msginfo m cnt =
    (let cnt = cnt + 1;
         log = (if cnt mod 100000 = 0
                then [LOG_VMM ''[DEBUG] Handled %lu faults\<newline>'' [Num (uint cnt)]]
                else []);
         success = fault_handle_ret
     in if success
        then \<lparr>ret = True, mem = m(reply_msginfo := microkit_msginfo_new 0 0), count = cnt,
              calls = log @ [Fault_handle child msginfo]\<rparr>
        else \<lparr>ret = False, mem = m, count = cnt,
              calls = log @ [Fault_handle child msginfo]\<rparr>)"

text \<open>
  A run of the fault entry point: the runtime delivers one fault after the other, each
  with its own child, message, reply location and dispatcher verdict. The run threads
  the store and the counter through the calls and collects what they call.
\<close>

record fault_call =
  fault_handle_ret :: bool
  child :: microkit_child
  msginfo :: microkit_msginfo
  reply_msginfo :: uintptr_t

record run_result =
  final_mem :: msg_store
  final_count :: uint64_t
  all_calls :: "event list"

fun faults :: "fault_call list \<Rightarrow> msg_store \<Rightarrow> uint64_t \<Rightarrow> run_result" where
  "faults [] m cnt = \<lparr>final_mem = m, final_count = cnt, all_calls = []\<rparr>"
| "faults (c # cs) m cnt =
    (let r = fault (fault_handle_ret c) (child c) (msginfo c) (reply_msginfo c) m cnt;
         rest = faults cs (mem r) (count r)
     in rest\<lparr>all_calls := calls r @ all_calls rest\<rparr>)"

section \<open>Observations on a list of calls\<close>

fun is_irq_ack :: "event \<Rightarrow> bool" where
  "is_irq_ack (Microkit_irq_ack ch) = True"
| "is_irq_ack _ = False"

fun is_inject :: "event \<Rightarrow> bool" where
  "is_inject (Virq_inject irq) = True"
| "is_inject _ = False"

fun is_setup_images :: "event \<Rightarrow> bool" where
  "is_setup_images (Linux_setup_images a b c d e f g h i) = True"
| "is_setup_images _ = False"

fun is_controller_init :: "event \<Rightarrow> bool" where
  "is_controller_init Virq_controller_init = True"
| "is_controller_init _ = False"

fun is_register :: "event \<Rightarrow> bool" where
  "is_register (Virq_register v irq cb) = True"
| "is_register _ = False"

fun is_guest_start :: "event \<Rightarrow> bool" where
  "is_guest_start (Guest_start pc dtb initrd) = True"
| "is_guest_start _ = False"

fun is_error_log :: "event \<Rightarrow> bool" where
  "is_error_log (LOG_VMM_ERR f as) = True"
| "is_error_log _ = False"

fun is_liveness_log :: "event \<Rightarrow> bool" where
  "is_liveness_log (LOG_VMM f as) = (f = ''[DEBUG] Handled %lu faults\<newline>'')"
| "is_liveness_log _ = False"

text \<open>Some call satisfying \<open>P\<close> is made strictly earlier than some call satisfying \<open>Q\<close>.\<close>

fun happens_before :: "(event \<Rightarrow> bool) \<Rightarrow> (event \<Rightarrow> bool) \<Rightarrow> event list \<Rightarrow> bool" where
  "happens_before P Q [] = False"
| "happens_before P Q (e # es) = ((P e \<and> list_ex Q es) \<or> happens_before P Q es)"

text \<open>The calls made after the first call satisfying \<open>P\<close>.\<close>

definition after :: "(event \<Rightarrow> bool) \<Rightarrow> event list \<Rightarrow> event list" where
  "after P es = tl (dropWhile (\<lambda>e. \<not> P e) es)"

section \<open>Concrete inputs\<close>

text \<open>
  A boot with a 4 KiB kernel, a 1 KiB device tree and a 2 KiB initial RAM disk, and the
  three ways in which the collaborators of \<^verbatim>\<open>init\<close> can answer.
\<close>

definition boot_example :: boot_inputs where
  "boot_example = \<lparr>microkit_name = ''VMM'', guest_ram_vaddr = 0x40000000,
     guest_kernel_image = 0x200000, guest_kernel_image_end = 0x201000,
     guest_dtb_image = 0x300000, guest_dtb_image_end = 0x300400,
     guest_initrd_image = 0x400000, guest_initrd_image_end = 0x400800,
     GUEST_BOOT_VCPU_ID = 0\<rparr>"

definition boot_ok :: boot_returns where
  "boot_ok = \<lparr>linux_setup_images_ret = 0x40080000, virq_controller_init_ret = True,
     virq_register_ret = True\<rparr>"

definition loader_fails :: boot_returns where
  "loader_fails = \<lparr>linux_setup_images_ret = 0, virq_controller_init_ret = True,
     virq_register_ret = True\<rparr>"

definition controller_fails :: boot_returns where
  "controller_fails = \<lparr>linux_setup_images_ret = 0x40080000, virq_controller_init_ret = False,
     virq_register_ret = True\<rparr>"

definition register_fails :: boot_returns where
  "register_fails = \<lparr>linux_setup_images_ret = 0x40080000, virq_controller_init_ret = True,
     virq_register_ret = False\<rparr>"

text \<open>A store whose locations all hold the zero message, and one with stale content.\<close>

definition zero_store :: msg_store where
  "zero_store = (\<lambda>a. Msginfo 0 0)"

definition stale_store :: msg_store where
  "stale_store = (\<lambda>a. Msginfo 7 7)"

definition call_example :: "bool \<Rightarrow> fault_call" where
  "call_example v =
    \<lparr>fault_handle_ret = v, child = 0, msginfo = Msginfo 36 1, reply_msginfo = 0x1000\<rparr>"

section \<open>Basic facts\<close>

lemma fault_ret: "ret (fault h ch msg p m c) = h"
  by (simp add: fault_def Let_def)

lemma fault_mem:
  "mem (fault h ch msg p m c) = (if h then m(p := microkit_msginfo_new 0 0) else m)"
  by (simp add: fault_def Let_def)

lemma fault_count: "count (fault h ch msg p m c) = c + 1"
  by (simp add: fault_def Let_def)

lemma fault_calls:
  "calls (fault h ch msg p m c) =
    (if (c + 1) mod 100000 = 0
     then [LOG_VMM ''[DEBUG] Handled %lu faults\<newline>'' [Num (uint (c + 1))]] else [])
    @ [Fault_handle ch msg]"
  by (simp add: fault_def Let_def)

lemma faults_count: "final_count (faults cs m c) = c + of_nat (length cs)"
  by (induction cs arbitrary: m c) (simp_all add: fault_count Let_def)

lemma faults_append:
  "faults (xs @ ys) m c =
    (let r1 = faults xs m c; r2 = faults ys (final_mem r1) (final_count r1)
     in r2\<lparr>all_calls := all_calls r1 @ all_calls r2\<rparr>)"
  by (induction xs arbitrary: m c) (simp_all add: Let_def)

text \<open>The test \<^verbatim>\<open>count % 100000 == 0\<close> on the 64-bit counter, read on its value.\<close>

lemma multiple_iff:
  fixes c :: "64 word"
  shows "(c mod 100000 = 0) = (unat c mod 100000 = 0)"
proof -
  have "unat (c mod 100000) = unat c mod 100000"
    by (simp add: unat_mod)
  then show ?thesis
    by (metis unat_eq_0)
qed

lemma unat_succ:
  fixes c :: "64 word"
  assumes "unat c + 1 < 2 ^ 64"
  shows "unat (c + 1) = unat c + 1"
  using assms by (simp add: unat_add_lem [THEN iffD1])

lemma unat_plus_length:
  fixes c :: "64 word"
  assumes "unat c + n < 2 ^ 64"
  shows "unat (c + of_nat n) = unat c + n"
proof -
  from assms have "n < 2 ^ 64" by simp
  then have "unat (of_nat n :: 64 word) = n" by (simp add: unat_of_nat)
  with assms show ?thesis by (simp add: unat_add_lem [THEN iffD1])
qed

lemma minus_one_word_64: "(0xFFFFFFFFFFFFFFFF :: 64 word) = - 1"
  by simp

text \<open>As long as the counter stays below 100000, a run writes no liveness line.\<close>

lemma quiet_run:
  "unat c + length cs < 100000 \<Longrightarrow> filter is_liveness_log (all_calls (faults cs m c)) = []"
proof (induction cs arbitrary: m c)
  case Nil
  then show ?case by simp
next
  case (Cons x xs)
  from Cons.prems have small: "unat c + 1 < 100000" by simp
  then have u: "unat (c + 1) = unat c + 1" by (simp add: unat_succ)
  with small have nm: "(c + 1) mod 100000 \<noteq> 0" by (simp add: multiple_iff)
  from u Cons.prems have "unat (c + 1) + length xs < 100000" by simp
  then have "filter is_liveness_log (all_calls (faults xs m' (c + 1))) = []" for m'
    by (rule Cons.IH)
  with nm show ?case by (simp add: Let_def fault_calls fault_count)
qed

section \<open>The boot sequence\<close>

text \<open>
  C3. If the image loader returns a zero entry point, \<^verbatim>\<open>init\<close> stops there: after the
  call to the loader it only writes the error line; it initialises no controller,
  registers no interrupt, acknowledges nothing and never starts the guest.
\<close>

theorem init_aborts_on_zero_entry:
  assumes "linux_setup_images_ret r = 0"
  shows "after is_setup_images (init b r) =
           [LOG_VMM_ERR ''Failed to initialise guest images\<newline>'' []] \<and>
         \<not> list_ex is_controller_init (init b r) \<and>
         \<not> list_ex is_register (init b r) \<and>
         \<not> list_ex is_irq_ack (init b r) \<and>
         \<not> list_ex is_guest_start (init b r)"
  using assms by (simp add: init_def after_def Let_def)

theorem init_aborts_on_zero_entry_witness:
  "linux_setup_images_ret loader_fails = 0 \<and>
   after is_setup_images (init boot_example loader_fails) =
     [LOG_VMM_ERR ''Failed to initialise guest images\<newline>'' []] \<and>
   \<not> list_ex is_controller_init (init boot_example loader_fails) \<and>
   \<not> list_ex is_register (init boot_example loader_fails) \<and>
   \<not> list_ex is_irq_ack (init boot_example loader_fails) \<and>
   \<not> list_ex is_guest_start (init boot_example loader_fails)"
proof -
  have z: "linux_setup_images_ret loader_fails = 0"
    by (simp add: loader_fails_def)
  from z init_aborts_on_zero_entry [OF z, of boot_example] show ?thesis
    by simp
qed

text \<open>
  C5. If the loader succeeds and the initialisation of the virtual interrupt controller
  fails, \<^verbatim>\<open>init\<close> stops at that step: after the call it only writes the error line and
  returns; it registers no interrupt, acknowledges nothing and never starts the guest.
\<close>

theorem init_aborts_on_controller_failure:
  assumes "linux_setup_images_ret r \<noteq> 0" and "\<not> virq_controller_init_ret r"
  shows "after is_controller_init (init b r) =
           [LOG_VMM_ERR ''Failed to initialise emulated interrupt controller\<newline>'' []] \<and>
         \<not> list_ex is_register (init b r) \<and>
         \<not> list_ex is_irq_ack (init b r) \<and>
         \<not> list_ex is_guest_start (init b r)"
  using assms by (simp add: init_def after_def Let_def)

theorem init_aborts_on_controller_failure_witness:
  "linux_setup_images_ret controller_fails \<noteq> 0 \<and>
   \<not> virq_controller_init_ret controller_fails \<and>
   after is_controller_init (init boot_example controller_fails) =
     [LOG_VMM_ERR ''Failed to initialise emulated interrupt controller\<newline>'' []] \<and>
   \<not> list_ex is_register (init boot_example controller_fails) \<and>
   \<not> list_ex is_irq_ack (init boot_example controller_fails) \<and>
   \<not> list_ex is_guest_start (init boot_example controller_fails)"
proof -
  have pc: "linux_setup_images_ret controller_fails \<noteq> 0"
    and ko: "\<not> virq_controller_init_ret controller_fails"
    by (simp_all add: controller_fails_def)
  from pc ko init_aborts_on_controller_failure [OF pc ko, of boot_example] show ?thesis
    by simp
qed

text \<open>
  C9. When the loader returns a non-zero entry point and the controller initialises,
  \<^verbatim>\<open>init\<close> acknowledges the serial channel exactly once, after the registration of the
  serial interrupt and before the start of the guest; the guest is started once, as the
  last step, at the entry point the loader returned, with the guest addresses of the
  device tree (0x4f000000) and of the initial RAM disk (0x4d000000).
\<close>

theorem init_acks_once_before_start:
  assumes "linux_setup_images_ret r \<noteq> 0" and "virq_controller_init_ret r"
  shows "filter is_irq_ack (init b r) = [Microkit_irq_ack SERIAL_IRQ_CH] \<and>
         filter is_register (init b r) =
           [Virq_register (GUEST_BOOT_VCPU_ID b) SERIAL_IRQ Serial_ack] \<and>
         happens_before is_register is_irq_ack (init b r) \<and>
         happens_before is_irq_ack is_guest_start (init b r) \<and>
         filter is_guest_start (init b r) =
           [Guest_start (linux_setup_images_ret r) 0x4f000000 0x4d000000] \<and>
         last (init b r) = Guest_start (linux_setup_images_ret r) 0x4f000000 0x4d000000"
  using assms
  by (simp add: init_def Let_def GUEST_DTB_VADDR_def GUEST_INIT_RAM_DISK_VADDR_def)

theorem init_acks_once_before_start_witness:
  "linux_setup_images_ret boot_ok \<noteq> 0 \<and> virq_controller_init_ret boot_ok \<and>
   filter is_irq_ack (init boot_example boot_ok) = [Microkit_irq_ack 1] \<and>
   filter is_register (init boot_example boot_ok) = [Virq_register 0 33 Serial_ack] \<and>
   happens_before is_register is_irq_ack (init boot_example boot_ok) \<and>
   happens_before is_irq_ack is_guest_start (init boot_example boot_ok) \<and>
   filter is_guest_start (init boot_example boot_ok) =
     [Guest_start 0x40080000 0x4f000000 0x4d000000] \<and>
   last (init boot_example boot_ok) = Guest_start 0x40080000 0x4f000000 0x4d000000"
proof -
  have pc: "linux_setup_images_ret boot_ok \<noteq> 0" and ok: "virq_controller_init_ret boot_ok"
    by (simp_all add: boot_ok_def)
  from pc ok init_acks_once_before_start [OF pc ok, of boot_example] show ?thesis
    by (simp add: boot_ok_def boot_example_def SERIAL_IRQ_CH_def SERIAL_IRQ_def)
qed

text \<open>
  C2. A boot in which the registration of the serial interrupt fails. The value that
  \<^verbatim>\<open>virq_register\<close> returns is stored and never read: the boot makes the same calls as
  the boot in which the registration succeeds. It goes on to the acknowledgement and
  to the start of the guest, and it writes no error line.
\<close>

theorem init_register_failure_not_logged:
  "init boot_example register_fails = init boot_example boot_ok \<and>
   filter is_error_log (init boot_example register_fails) = [] \<and>
   after is_register (init boot_example register_fails) =
     [LOG_VMM ''[DEBUG] Acking interrupt...(just in case there is already an interrupt available to handle)\<newline>'' [],
      Microkit_irq_ack 1,
      LOG_VMM ''[DEBUG] Start Linux guest...\<newline>'' [],
      Guest_start 0x40080000 0x4f000000 0x4d000000]"
  by (simp add: init_def after_def Let_def boot_example_def register_fails_def boot_ok_def
      SERIAL_IRQ_CH_def GUEST_DTB_VADDR_def GUEST_INIT_RAM_DISK_VADDR_def)

section \<open>Notifications\<close>

text \<open>
  C8. On a channel other than the serial one, \<^verbatim>\<open>notified\<close> prints the unexpected
  channel and returns: this is all it does, so it neither acknowledges nor injects.
\<close>

theorem notified_unknown_channel:
  assumes "ch \<noteq> SERIAL_IRQ_CH"
  shows "notified ok ch = [Printf ''Unexpected channel, ch: 0x%lx\<newline>'' [Num (uint ch)]] \<and>
         \<not> list_ex is_irq_ack (notified ok ch) \<and>
         \<not> list_ex is_inject (notified ok ch)"
  using assms by (simp add: notified_def)

theorem notified_unknown_channel_witness:
  "(2 :: microkit_channel) \<noteq> SERIAL_IRQ_CH \<and>
   notified True 2 = [Printf ''Unexpected channel, ch: 0x%lx\<newline>'' [Num 2]] \<and>
   \<not> list_ex is_irq_ack (notified True 2) \<and>
   \<not> list_ex is_inject (notified True 2)"
proof -
  have ne: "(2 :: microkit_channel) \<noteq> SERIAL_IRQ_CH"
    by (simp add: SERIAL_IRQ_CH_def)
  from ne notified_unknown_channel [OF ne, of True] show ?thesis
    by simp
qed




section \<open>Faults\<close>

text \<open>
  C4. \<^verbatim>\<open>fault\<close> returns what the dispatcher returned: true on success, and then the
  reply location holds the message built from label 0 and count 0; false on failure,
  and then the reply location holds what it held before.
\<close>

theorem fault_verdict_and_reply:
  "ret (fault h ch msg p m c) = h \<and>
   (h \<longrightarrow> mem (fault h ch msg p m c) p = microkit_msginfo_new 0 0 \<and>
          msg_label (mem (fault h ch msg p m c) p) = 0 \<and>
          msg_count (mem (fault h ch msg p m c) p) = 0) \<and>
   (\<not> h \<longrightarrow> mem (fault h ch msg p m c) p = m p)"
  by (simp add: fault_ret fault_mem microkit_msginfo_new_def)

theorem fault_verdict_and_reply_witness:
  "ret (fault True 0 (Msginfo 36 1) 0x1000 stale_store 41) \<and>
   mem (fault True 0 (Msginfo 36 1) 0x1000 stale_store 41) 0x1000 = Msginfo 0 0 \<and>
   \<not> ret (fault False 0 (Msginfo 36 1) 0x1000 stale_store 41) \<and>
   mem (fault False 0 (Msginfo 36 1) 0x1000 stale_store 41) 0x1000 = Msginfo 7 7"
  using fault_verdict_and_reply [of True 0 "Msginfo 36 1" "0x1000" stale_store 41]
    fault_verdict_and_reply [of False 0 "Msginfo 36 1" "0x1000" stale_store 41]
  by (simp add: microkit_msginfo_new_def stale_store_def)

text \<open>
  C10. When the dispatcher fails, \<^verbatim>\<open>fault\<close> leaves the whole store as it was, the
  reply location included. A location whose content differs after the call is the
  reply location of a call in which the dispatcher succeeded.
\<close>

theorem fault_failure_leaves_reply:
  "(\<not> h \<longrightarrow> mem (fault h ch msg p m c) = m) \<and>
   (mem (fault h ch msg p m c) q \<noteq> m q \<longrightarrow> h \<and> q = p)"
  by (simp add: fault_mem)

theorem fault_failure_leaves_reply_witness:
  "mem (fault False 0 (Msginfo 36 1) 0x1000 stale_store 41) = stale_store \<and>
   mem (fault True 0 (Msginfo 36 1) 0x1000 stale_store 41) 0x1000 \<noteq> stale_store 0x1000"
  using fault_failure_leaves_reply [of False 0 "Msginfo 36 1" "0x1000" stale_store 41 "0x1000"]
    fault_failure_leaves_reply [of True 0 "Msginfo 36 1" "0x1000" stale_store 41 "0x1000"]
  by (simp add: fault_mem microkit_msginfo_new_def stale_store_def)

text \<open>
  C6. Every call of \<^verbatim>\<open>fault\<close> adds one to the counter, whatever the dispatcher
  answers, so a run of K calls adds K. The counter starts at 0 and only \<^verbatim>\<open>count++\<close>
  changes it: after a run of K calls from 0 it holds K, after a run of K calls from any
  value it holds K more, it never decreases along a run, and every single call strictly
  increases it. The counter is a \<^verbatim>\<open>uint64_t\<close>; the statements on its value hold as
  long as it stays within the 64 bits, that is for the first \<open>2\<^sup>6\<^sup>4 - 1\<close> calls.
\<close>

theorem fault_count_adds_modulo:
  "count (fault h ch msg p m c) = c + 1 \<and>
   final_count (faults cs m c) = c + of_nat (length cs) \<and>
   (unat c + length cs < 2 ^ 64 \<longrightarrow>
      unat (final_count (faults cs m c)) = unat c + length cs) \<and>
   (c \<noteq> 0xFFFFFFFFFFFFFFFF \<longrightarrow> c < count (fault h ch msg p m c)) \<and>
   (length cs < 2 ^ 64 \<longrightarrow> unat (final_count (faults cs m 0)) = length cs) \<and>
   (unat c + length cs < 2 ^ 64 \<longrightarrow> c \<le> final_count (faults cs m c))"
proof -
  have step: "c < c + 1" if top: "c \<noteq> 0xFFFFFFFFFFFFFFFF"
  proof -
    from top have "1 + c \<noteq> 0"
      by (metis add_diff_cancel_left' diff_0 minus_one_word_64)
    then have "unat (1 + c) = Suc (unat c)"
      by (rule unatSuc)
    then show ?thesis
      by (simp add: word_less_nat_alt add.commute)
  qed
  have run: "unat (final_count (faults cs m c)) = unat c + length cs"
    if "unat c + length cs < 2 ^ 64"
    using that by (simp add: faults_count unat_plus_length)
  have from_zero: "unat (final_count (faults cs m 0)) = length cs" if "length cs < 2 ^ 64"
    using that by (simp add: faults_count unat_of_nat)
  have mono: "c \<le> final_count (faults cs m c)" if "unat c + length cs < 2 ^ 64"
    using run [OF that] by (simp add: word_le_nat_alt)
  from step run from_zero mono show ?thesis
    by (simp add: fault_count faults_count)
qed

theorem fault_count_adds_modulo_witness:
  "unat (5 :: uint64_t) + length [call_example True, call_example False, call_example True] < 2 ^ 64 \<and>
   final_count (faults [call_example True, call_example False, call_example True] zero_store 5) = 8 \<and>
   final_count (faults [call_example True, call_example False, call_example True] zero_store 0) = 3 \<and>
   (5 :: uint64_t) \<noteq> 0xFFFFFFFFFFFFFFFF \<and>
   5 < count (fault False 0 (Msginfo 36 1) 0x1000 zero_store 5)"
  using fault_count_adds_modulo
    [of False 0 "Msginfo 36 1" "0x1000" zero_store 5
        "[call_example True, call_example False, call_example True]"]
    fault_count_adds_modulo
    [of False 0 "Msginfo 36 1" "0x1000" zero_store 0
        "[call_example True, call_example False, call_example True]"]
  by simp

text \<open>
  C7. From a counter of zero, a run of 100000 calls of \<^verbatim>\<open>fault\<close> leaves the counter at
  100000 and writes exactly one liveness line, which reports 100000; the first 99999
  calls write none, so the line comes with the 100000th call. A call writes the line
  exactly when the incremented counter is a multiple of 100000.
\<close>

theorem fault_liveness_log_100000:
  assumes len: "length cs = 100000"
  shows "final_count (faults cs m 0) = 100000 \<and>
         filter is_liveness_log (all_calls (faults cs m 0)) =
           [LOG_VMM ''[DEBUG] Handled %lu faults\<newline>'' [Num 100000]] \<and>
         filter is_liveness_log (all_calls (faults (butlast cs) m 0)) = [] \<and>
         list_ex is_liveness_log (calls (fault h ch msg p m' c)) =
           (unat (c + 1) mod 100000 = 0)"
proof -
  from len have ne: "cs \<noteq> []" by auto
  then have split: "cs = butlast cs @ [last cs]" by simp
  have quiet: "filter is_liveness_log (all_calls (faults (butlast cs) m 0)) = []"
    by (rule quiet_run) (simp add: len)
  have cnt: "final_count (faults (butlast cs) m 0) = 99999"
    by (simp add: faults_count len)
  have "filter is_liveness_log (all_calls (faults (butlast cs @ [last cs]) m 0)) =
          [LOG_VMM ''[DEBUG] Handled %lu faults\<newline>'' [Num 100000]]"
    by (simp add: faults_append Let_def quiet cnt fault_calls)
  with split have one: "filter is_liveness_log (all_calls (faults cs m 0)) =
          [LOG_VMM ''[DEBUG] Handled %lu faults\<newline>'' [Num 100000]]"
    by simp
  have total: "final_count (faults cs m 0) = 100000"
    by (simp add: faults_count len)
  have policy: "list_ex is_liveness_log (calls (fault h ch msg p m' c)) =
      (unat (c + 1) mod 100000 = 0)"
    by (simp add: fault_calls multiple_iff)
  from total one quiet policy show ?thesis by simp
qed

theorem fault_liveness_log_100000_witness:
  "length (replicate 100000 (call_example True)) = 100000 \<and>
   final_count (faults (replicate 100000 (call_example True)) zero_store 0) = 100000 \<and>
   filter is_liveness_log (all_calls (faults (replicate 100000 (call_example True)) zero_store 0)) =
     [LOG_VMM ''[DEBUG] Handled %lu faults\<newline>'' [Num 100000]]"
  using fault_liveness_log_100000 [of "replicate 100000 (call_example True)" zero_store]
  by simp

end
